theory Spec2Isabelle
  imports Complex_Main
begin

section \<open>Credit prediction API: the embedding of \<^verbatim>\<open>main.py\<close>\<close>

text \<open>
  The program is one Python module: a request class with a validator on its feature list,
  a \<^verbatim>\<open>ModelManager\<close> that loads a scaler and up to three models from disk and serves
  \<^verbatim>\<open>predict\<close>, and a thin HTTP endpoint in front of it.

  Conventions of the embedding.
  \<^item> A Python \<^verbatim>\<open>str\<close> is a \<open>string\<close> with one \<open>char\<close> per code point. Every code point
    of the module's literals is below 256; the accented ones are written by number
    (\<open>CHR 0xE9\<close> is U+00E9).
  \<^item> A Python \<^verbatim>\<open>float\<close> is a \<open>pyfloat\<close>: a finite value, an infinity or NaN. The module
    does no float arithmetic: it only compares floats, takes a maximum and tests truthiness,
    and these are exact on the values. A float is identified with the number that denotes
    it: the rounding of a decimal literal to binary64 is not modelled, so a value and a
    threshold written with the same decimal are equal, as they are in Python.
  \<^item> An exception caught by \<^verbatim>\<open>except Exception as e\<close> is the string \<^verbatim>\<open>str(e)\<close>, the only
    part of it the module reads. A call that may raise returns \<open>string + 'a\<close>.
  \<^item> The objects unpickled by \<^verbatim>\<open>joblib.load\<close> are opaque and duck-typed: a \<open>pyobj\<close>
    carries the operations the module calls on them.
  \<^item> Every call the module makes on such an object is recorded, in order, in a list of
    \<open>event\<close>s returned beside the result, so that which operations ran, on what, is part of
    what a function computes.
\<close>

subsection \<open>Floats\<close>

datatype pyfloat = Fin real | PInf | NInf | NaN

text \<open>\<^verbatim>\<open>a <= b\<close> and \<^verbatim>\<open>a < b\<close> on floats: every comparison with NaN is false.\<close>

fun py_le :: "pyfloat \<Rightarrow> pyfloat \<Rightarrow> bool" where
  "py_le NaN _ = False"
| "py_le _ NaN = False"
| "py_le NInf _ = True"
| "py_le _ PInf = True"
| "py_le (Fin a) (Fin b) = (a \<le> b)"
| "py_le PInf _ = False"
| "py_le _ NInf = False"

fun py_lt :: "pyfloat \<Rightarrow> pyfloat \<Rightarrow> bool" where
  "py_lt NaN _ = False"
| "py_lt _ NaN = False"
| "py_lt PInf _ = False"
| "py_lt _ NInf = False"
| "py_lt (Fin a) (Fin b) = (a < b)"
| "py_lt NInf _ = True"
| "py_lt _ PInf = True"

definition py_ge :: "pyfloat \<Rightarrow> pyfloat \<Rightarrow> bool" where
  "py_ge a b = py_le b a"

definition py_gt :: "pyfloat \<Rightarrow> pyfloat \<Rightarrow> bool" where
  "py_gt a b = py_lt b a"

text \<open>\<^verbatim>\<open>bool(x)\<close> of a float: false exactly for zero; NaN and the infinities are true.\<close>

definition float_truthy :: "pyfloat \<Rightarrow> bool" where
  "float_truthy x = (x \<noteq> Fin 0)"

text \<open>
  The builtin \<^verbatim>\<open>max\<close> over a non-empty sequence: it keeps the first item and replaces it
  by a later one only when \<^verbatim>\<open>item > current\<close>.
\<close>

definition py_max :: "pyfloat \<Rightarrow> pyfloat list \<Rightarrow> pyfloat" where
  "py_max x xs = foldl (\<lambda>m y. if py_gt y m then y else m) x xs"

subsection \<open>Data model\<close>

type_synonym matrix = "pyfloat list list"

text \<open>
  An unpickled object. \<open>obj_truthy\<close> is \<^verbatim>\<open>bool(obj)\<close>; \<open>obj_transform\<close> and \<open>obj_predict\<close>
  are the calls \<^verbatim>\<open>obj.transform(X)\<close> and \<^verbatim>\<open>obj.predict(X)\<close> (an object without the attribute
  is one whose call always raises, with the AttributeError's text);
  \<open>obj_predict_proba\<close> is \<open>None\<close> when \<^verbatim>\<open>hasattr(obj, 'predict_proba')\<close> is false.
\<close>

record pyobj =
  obj_truthy :: bool
  obj_transform :: "matrix \<Rightarrow> string + matrix"
  obj_predict :: "matrix \<Rightarrow> string + pyfloat list"
  obj_predict_proba :: "(matrix \<Rightarrow> string + matrix) option"

text \<open>\<^verbatim>\<open>HTTPException(status_code, detail)\<close>.\<close>

datatype http_error = HTTPException nat string

text \<open>The dictionary returned by \<^verbatim>\<open>ModelManager.predict\<close>.\<close>

record prediction_result =
  prediction :: pyfloat
  probability :: "pyfloat option"
  confidence :: string
  model_used :: string
  recommendation :: string

text \<open>
  \<^verbatim>\<open>ModelManager\<close>. A Python dictionary keeps its keys in insertion order and the module
  reads that order (\<^verbatim>\<open>list(self.models.keys())\<close>), so a dictionary is an association list.
\<close>

record manager =
  models :: "(string \<times> pyobj) list"
  scaler :: "pyobj option"
  model_names :: "(string \<times> string) list"

text \<open>\<^verbatim>\<open>d[k] = v\<close>: an existing key keeps its place, a new key goes last.\<close>

fun dict_set :: "('k \<times> 'v) list \<Rightarrow> 'k \<Rightarrow> 'v \<Rightarrow> ('k \<times> 'v) list" where
  "dict_set [] k v = [(k, v)]"
| "dict_set ((k', v') # d) k v = (if k' = k then (k, v) # d else (k', v') # dict_set d k v)"

definition dict_keys :: "('k \<times> 'v) list \<Rightarrow> 'k list" where
  "dict_keys d = map fst d"

text \<open>The calls made on unpickled objects, and the endpoint's call of the dispatcher.\<close>

datatype event =
    Dispatch "pyfloat list" "string option"
  | Transform matrix
  | ModelPredict string matrix
  | ModelPredictProba string matrix

subsection \<open>String constants of the module\<close>

definition label_alto :: string where
  "label_alto = ''Alto''"

definition label_medio :: string where
  "label_medio = ''M'' @ [CHR 0xE9] @ ''dio''"

definition label_baixo :: string where
  "label_baixo = ''Baixo''"

definition rec_aprovacao :: string where
  "rec_aprovacao = ''Aprova'' @ [CHR 0xE7, CHR 0xE3] @ ''o recomendada''"

definition rec_analisar :: string where
  "rec_analisar = ''Analisar com cuidado''"

definition rec_nao :: string where
  "rec_nao = ''N'' @ [CHR 0xE3] @ ''o recomendado''"

definition detail_nenhum_modelo :: string where
  "detail_nenhum_modelo = ''Nenhum modelo dispon'' @ [CHR 0xED] @ ''vel''"

definition msg_seis :: string where
  "msg_seis = ''S'' @ [CHR 0xE3] @ ''o necess'' @ [CHR 0xE1] @ ''rias 6 caracter'' @ [CHR 0xED] @ ''sticas''"

definition initial_model_names :: "(string \<times> string) list" where
  "initial_model_names =
     [(''logistic_regression'', ''Regress'' @ [CHR 0xE3] @ ''o Log'' @ [CHR 0xED] @ ''stica''),
      (''random_forest'', ''Random Forest''),
      (''gradient_boosting'', ''Gradient Boosting'')]"

text \<open>
  The texts of the errors Python itself raises inside \<^verbatim>\<open>predict\<close>: indexing an empty
  array with \<^verbatim>\<open>[0]\<close>, \<^verbatim>\<open>max\<close> of an empty sequence, and a missing dictionary key
  (\<^verbatim>\<open>str(KeyError(k))\<close> is the key's \<^verbatim>\<open>repr\<close>).
\<close>

text \<open>
  \<^verbatim>\<open>repr\<close> of a string of code points below 256. The quote is the apostrophe, unless
  the string has an apostrophe and no double quote; the quote and the backslash are
  escaped, tab, newline and carriage return are written \<^verbatim>\<open>\t\<close>, \<^verbatim>\<open>\n\<close>, \<^verbatim>\<open>\r\<close>, and
  every other non-printable code point (the controls, U+007F to U+00A0, U+00AD) is
  written \<^verbatim>\<open>\xhh\<close>.
\<close>

definition hexdigit :: "nat \<Rightarrow> char" where
  "hexdigit n = ''0123456789abcdef'' ! (n mod 16)"

definition py_printable :: "char \<Rightarrow> bool" where
  "py_printable c =
     (let n = (of_char c :: nat) in (32 \<le> n \<and> n < 127) \<or> (161 \<le> n \<and> n \<noteq> 173))"

definition repr_char :: "char \<Rightarrow> char \<Rightarrow> string" where
  "repr_char quote c =
     (if c = quote \<or> c = CHR 0x5C then [CHR 0x5C, c]
      else if c = CHR 0x09 then [CHR 0x5C, CHR ''t'']
      else if c = CHR 0x0A then [CHR 0x5C, CHR ''n'']
      else if c = CHR 0x0D then [CHR 0x5C, CHR ''r'']
      else if py_printable c then [c]
      else [CHR 0x5C, CHR ''x'', hexdigit (of_char c div 16), hexdigit (of_char c mod 16)])"

definition py_repr :: "string \<Rightarrow> string" where
  "py_repr s =
     (let quote = (if CHR 0x27 \<in> set s \<and> CHR 0x22 \<notin> set s then CHR 0x22 else CHR 0x27)
      in [quote] @ concat (map (repr_char quote) s) @ [quote])"

definition index_error :: string where
  "index_error = ''index 0 is out of bounds for axis 0 with size 0''"

definition max_empty_error :: string where
  "max_empty_error = ''max() arg is an empty sequence''"

definition key_error :: "string \<Rightarrow> string" where
  "key_error k = py_repr k"

subsection \<open>\<^verbatim>\<open>PredictionRequest\<close>\<close>

record prediction_request =
  features :: "pyfloat list"
  model_name :: "string option"

text \<open>Lines 25-30: the validator of the \<^verbatim>\<open>features\<close> field; \<open>Inl\<close> is the ValueError.\<close>

definition validate_features :: "pyfloat list \<Rightarrow> string + pyfloat list" where
  "validate_features v = (if length v \<noteq> 6 then Inl msg_seis else Inr v)"

subsection \<open>\<^verbatim>\<open>ModelManager.predict\<close>\<close>

text \<open>
  Lines 73-77: the requested key if it is in \<^verbatim>\<open>self.models\<close>, else the first key of the
  dictionary, else the 503. The endpoint passes \<^verbatim>\<open>request.model_name\<close>, an
  \<^verbatim>\<open>Optional[str]\<close>: \<open>None\<close> is no key of the dictionary.
\<close>

definition first_available :: "manager \<Rightarrow> http_error + string" where
  "first_available m =
     (case dict_keys (models m) of
        [] \<Rightarrow> Inl (HTTPException 503 detail_nenhum_modelo)
      | k # _ \<Rightarrow> Inr k)"

definition select_model :: "manager \<Rightarrow> string option \<Rightarrow> http_error + string" where
  "select_model m requested =
     (case requested of
        None \<Rightarrow> first_available m
      | Some k \<Rightarrow> if k \<in> set (dict_keys (models m)) then Inr k else first_available m)"

text \<open>
  Lines 80-82: \<^verbatim>\<open>np.array(features).reshape(1, -1)\<close> is the one-row matrix of the features,
  whatever their number; the scaler is applied when \<^verbatim>\<open>self.scaler\<close> is truthy.
\<close>

definition scale :: "manager \<Rightarrow> pyfloat list \<Rightarrow> event list \<times> (string + matrix)" where
  "scale m fs =
     (let X = [fs] in
      case scaler m of
        None \<Rightarrow> ([], Inr X)
      | Some s \<Rightarrow> if obj_truthy s then ([Transform X], obj_transform s X) else ([], Inr X))"

text \<open>Line 85: \<^verbatim>\<open>float(model.predict(X)[0])\<close>.\<close>

definition model_prediction :: "string \<Rightarrow> pyobj \<Rightarrow> matrix \<Rightarrow> event list \<times> (string + pyfloat)" where
  "model_prediction k model X =
     ([ModelPredict k X],
      case obj_predict model X of
        Inl e \<Rightarrow> Inl e
      | Inr [] \<Rightarrow> Inl index_error
      | Inr (y # _) \<Rightarrow> Inr y)"

text \<open>Lines 87-90: the probability, \<open>None\<close> when the model has no \<^verbatim>\<open>predict_proba\<close>.\<close>

definition model_probability ::
  "string \<Rightarrow> pyobj \<Rightarrow> matrix \<Rightarrow> event list \<times> (string + pyfloat option)" where
  "model_probability k model X =
     (case obj_predict_proba model of
        None \<Rightarrow> ([], Inr None)
      | Some proba \<Rightarrow>
          ([ModelPredictProba k X],
           case proba X of
             Inl e \<Rightarrow> Inl e
           | Inr [] \<Rightarrow> Inl index_error
           | Inr ([] # _) \<Rightarrow> Inl max_empty_error
           | Inr ((p # ps) # _) \<Rightarrow> Inr (Some (py_max p ps))))"

text \<open>Line 92: \<^verbatim>\<open>score = probability if probability else prediction\<close>.\<close>

definition score_of :: "pyfloat option \<Rightarrow> pyfloat \<Rightarrow> pyfloat" where
  "score_of prob pred =
     (case prob of
        None \<Rightarrow> pred
      | Some p \<Rightarrow> if float_truthy p then p else pred)"

text \<open>Line 93.\<close>

definition confidence_of :: "pyfloat \<Rightarrow> string" where
  "confidence_of score =
     (if py_ge score (Fin 0.8) then label_alto
      else if py_ge score (Fin 0.6) then label_medio
      else label_baixo)"

text \<open>Lines 95-100.\<close>

definition recommendation_of :: "pyfloat \<Rightarrow> string" where
  "recommendation_of pred =
     (if py_ge pred (Fin 0.7) then rec_aprovacao
      else if py_ge pred (Fin 0.4) then rec_analisar
      else rec_nao)"

text \<open>\<^verbatim>\<open>d[k]\<close> on a dictionary: the value, or the KeyError.\<close>

definition dict_get :: "(string \<times> 'v) list \<Rightarrow> string \<Rightarrow> string + 'v" where
  "dict_get d k = (case map_of d k of None \<Rightarrow> Inl (key_error k) | Some v \<Rightarrow> Inr v)"

text \<open>
  Lines 80-108, the body of the \<^verbatim>\<open>try\<close>, for the selected key. Each step that raises ends
  the body with its error; the events so far are kept.
\<close>

definition predict_body ::
  "manager \<Rightarrow> pyfloat list \<Rightarrow> string \<Rightarrow> event list \<times> (string + prediction_result)" where
  "predict_body m fs k =
     (case scale m fs of
        (t1, Inl e) \<Rightarrow> (t1, Inl e)
      | (t1, Inr X) \<Rightarrow>
     (case dict_get (models m) k of
        Inl e \<Rightarrow> (t1, Inl e)
      | Inr model \<Rightarrow>
     (case model_prediction k model X of
        (t2, Inl e) \<Rightarrow> (t1 @ t2, Inl e)
      | (t2, Inr pred) \<Rightarrow>
     (case model_probability k model X of
        (t3, Inl e) \<Rightarrow> (t1 @ t2 @ t3, Inl e)
      | (t3, Inr prob) \<Rightarrow>
     (case dict_get (model_names m) k of
        Inl e \<Rightarrow> (t1 @ t2 @ t3, Inl e)
      | Inr name \<Rightarrow>
          (t1 @ t2 @ t3,
           Inr \<lparr>prediction = pred,
                probability = prob,
                confidence = confidence_of (score_of prob pred),
                model_used = name,
                recommendation = recommendation_of pred\<rparr>))))))"

text \<open>
  Lines 72-111. The 503 is raised before the \<^verbatim>\<open>try\<close>; whatever the body raises becomes
  the 500 whose detail is \<^verbatim>\<open>f"Erro: {str(e)}"\<close>.
\<close>

definition predict ::
  "manager \<Rightarrow> pyfloat list \<Rightarrow> string option \<Rightarrow> event list \<times> (http_error + prediction_result)" where
  "predict m fs requested =
     (case select_model m requested of
        Inl err \<Rightarrow> ([], Inl err)
      | Inr k \<Rightarrow>
          (case predict_body m fs k of
             (t, Inl e) \<Rightarrow> (t, Inl (HTTPException 500 (''Erro: '' @ e)))
           | (t, Inr r) \<Rightarrow> (t, Inr r)))"

text \<open>
  No step of the \<^verbatim>\<open>try\<close> block raises for the key \<open>k\<close>: the scaler, when line 81 applies
  it, returns a matrix; the key is in \<^verbatim>\<open>self.models\<close>; the model's \<^verbatim>\<open>predict\<close> returns a
  non-empty array; its \<^verbatim>\<open>predict_proba\<close>, when it has one, returns a first row that is not
  empty; and the key is in \<^verbatim>\<open>self.model_names\<close>. Stated on the objects' operations, for
  the properties below.
\<close>

definition output_ok :: "pyobj \<Rightarrow> matrix \<Rightarrow> bool" where
  "output_ok model X =
     (case obj_predict model X of
        Inl _ \<Rightarrow> False
      | Inr [] \<Rightarrow> False
      | Inr (_ # _) \<Rightarrow>
          (case obj_predict_proba model of
             None \<Rightarrow> True
           | Some proba \<Rightarrow>
               (case proba X of
                  Inl _ \<Rightarrow> False
                | Inr [] \<Rightarrow> False
                | Inr ([] # _) \<Rightarrow> False
                | Inr ((_ # _) # _) \<Rightarrow> True)))"

definition scaled_input :: "manager \<Rightarrow> pyfloat list \<Rightarrow> matrix option" where
  "scaled_input m fs =
     (case scaler m of
        None \<Rightarrow> Some [fs]
      | Some s \<Rightarrow>
          if obj_truthy s
          then (case obj_transform s [fs] of Inl _ \<Rightarrow> None | Inr X \<Rightarrow> Some X)
          else Some [fs])"

definition raises_nothing :: "manager \<Rightarrow> pyfloat list \<Rightarrow> string \<Rightarrow> bool" where
  "raises_nothing m fs k =
     (case scaled_input m fs of
        None \<Rightarrow> False
      | Some X \<Rightarrow>
          (case map_of (models m) k of
             None \<Rightarrow> False
           | Some model \<Rightarrow> output_ok model X \<and> k \<in> set (dict_keys (model_names m))))"

subsection \<open>The endpoint \<^verbatim>\<open>POST /predict\<close>\<close>

text \<open>
  The body of a request as the validation receives it, its fields already of the declared
  types. \<open>body_model_name\<close> is \<open>None\<close> when the body has no \<^verbatim>\<open>model_name\<close>, and
  \<open>Some None\<close> when it has \<^verbatim>\<open>null\<close>.
\<close>

record request_body =
  body_features :: "pyfloat list"
  body_model_name :: "string option option"

text \<open>Lines 21-30: building a \<^verbatim>\<open>PredictionRequest\<close> runs the validator and fills the default.\<close>

definition make_request :: "request_body \<Rightarrow> string + prediction_request" where
  "make_request b =
     (case validate_features (body_features b) of
        Inl e \<Rightarrow> Inl e
      | Inr v \<Rightarrow>
          Inr \<lparr>features = v,
               model_name = (case body_model_name b of
                               None \<Rightarrow> Some ''logistic_regression''
                             | Some n \<Rightarrow> n)\<rparr>)"

text \<open>
  What a call of the endpoint ends with: the body was refused by the validation, the
  dispatcher raised, or the result.
\<close>

datatype endpoint_error = RequestValidationError string | Raised http_error

text \<open>
  Lines 141-144. The framework builds the request before it calls the handler; the handler
  calls the dispatcher, which is recorded as a \<open>Dispatch\<close> event with its arguments.
\<close>

definition predict_endpoint ::
  "manager \<Rightarrow> request_body \<Rightarrow> event list \<times> (endpoint_error + prediction_result)" where
  "predict_endpoint m b =
     (case make_request b of
        Inl e \<Rightarrow> ([], Inl (RequestValidationError e))
      | Inr req \<Rightarrow>
          (case predict m (features req) (model_name req) of
             (t, Inl err) \<Rightarrow> (Dispatch (features req) (model_name req) # t, Inl (Raised err))
           | (t, Inr r) \<Rightarrow> (Dispatch (features req) (model_name req) # t, Inr r)))"

subsection \<open>\<^verbatim>\<open>ModelManager.load_models\<close>\<close>

text \<open>
  The working directory: a path has no file, a file \<^verbatim>\<open>joblib.load\<close> raises on (with the
  error's text), or a file that unpickles to an object.
\<close>

datatype artifact = Corrupt string | Pickled pyobj

type_synonym filesystem = "string \<Rightarrow> artifact option"

definition path_exists :: "filesystem \<Rightarrow> string \<Rightarrow> bool" where
  "path_exists fs p = (case fs p of None \<Rightarrow> False | Some _ \<Rightarrow> True)"

definition no_such_file :: "string \<Rightarrow> string" where
  "no_such_file p = ''[Errno 2] No such file or directory: '' @ [CHR 0x27] @ p @ [CHR 0x27]"

definition joblib_load :: "filesystem \<Rightarrow> string \<Rightarrow> string + pyobj" where
  "joblib_load fs p =
     (case fs p of
        None \<Rightarrow> Inl (no_such_file p)
      | Some (Corrupt e) \<Rightarrow> Inl e
      | Some (Pickled obj) \<Rightarrow> Inr obj)"

datatype level = INFO | WARNING | ERROR

type_synonym log = "(level \<times> string) list"

text \<open>\<^verbatim>\<open>str(n)\<close> of a natural number, for the count in the last log line.\<close>

definition digit :: "nat \<Rightarrow> char" where
  "digit d = char_of (48 + d)"

fun string_of_nat :: "nat \<Rightarrow> string" where
  "string_of_nat n = (if n < 10 then [digit n] else string_of_nat (n div 10) @ [digit (n mod 10)])"

declare string_of_nat.simps [simp del]

text \<open>
  \<^verbatim>\<open>try: ... except Exception as e: ...\<close>: the handler runs on the error the body raised.
  In both uses below the body changes nothing before it raises.
\<close>

definition try_except :: "(string + 'a) \<Rightarrow> (string \<Rightarrow> string + 'a) \<Rightarrow> string + 'a" where
  "try_except body handler = (case body of Inl e \<Rightarrow> handler e | Inr v \<Rightarrow> Inr v)"

text \<open>Lines 54-59. \<open>Inl\<close> would be an exception that leaves \<^verbatim>\<open>load_models\<close>.\<close>

definition load_scaler :: "filesystem \<Rightarrow> manager \<times> log \<Rightarrow> string + manager \<times> log" where
  "load_scaler fs st =
     (case st of (m, lg) \<Rightarrow>
        if path_exists fs ''scaler.joblib''
        then try_except
               (case joblib_load fs ''scaler.joblib'' of
                  Inl e \<Rightarrow> Inl e
                | Inr obj \<Rightarrow> Inr (m\<lparr>scaler := Some obj\<rparr>, lg @ [(INFO, ''Scaler carregado'')]))
               (\<lambda>e. Inr (m, lg @ [(WARNING, ''Erro scaler: '' @ e)]))
        else Inr (m, lg))"

text \<open>Lines 62-68, the body of the loop for one key.\<close>

definition load_model ::
  "filesystem \<Rightarrow> string \<Rightarrow> manager \<times> log \<Rightarrow> string + manager \<times> log" where
  "load_model fs model_key st =
     (case st of (m, lg) \<Rightarrow>
        let model_path = model_key @ ''.joblib'' in
        if path_exists fs model_path
        then try_except
               (case joblib_load fs model_path of
                  Inl e \<Rightarrow> Inl e
                | Inr obj \<Rightarrow>
                    Inr (m\<lparr>models := dict_set (models m) model_key obj\<rparr>,
                         lg @ [(INFO, ''Modelo '' @ model_key @ '' carregado'')]))
               (\<lambda>e. Inr (m, lg @ [(ERROR, ''Erro '' @ model_key @ '': '' @ e)]))
        else Inr (m, lg))"

text \<open>
  Line 61: the loop over \<^verbatim>\<open>self.model_names.keys()\<close>, in the dictionary's order. An
  exception that left the body would end the loop.
\<close>

fun load_each ::
  "filesystem \<Rightarrow> string list \<Rightarrow> manager \<times> log \<Rightarrow> string + manager \<times> log" where
  "load_each fs [] st = Inr st"
| "load_each fs (model_key # keys) st =
     (case load_model fs model_key st of
        Inl e \<Rightarrow> Inl e
      | Inr st' \<Rightarrow> load_each fs keys st')"

text \<open>Lines 50-70.\<close>

definition load_models :: "filesystem \<Rightarrow> manager \<times> log \<Rightarrow> string + manager \<times> log" where
  "load_models fs st =
     (case st of (m, lg) \<Rightarrow>
        (case load_scaler fs (m, lg @ [(INFO, ''Carregando modelos...'')]) of
           Inl e \<Rightarrow> Inl e
         | Inr st2 \<Rightarrow>
             (case load_each fs (dict_keys (model_names m)) st2 of
                Inl e \<Rightarrow> Inl e
              | Inr (m', lg') \<Rightarrow>
                  Inr (m', lg' @ [(INFO, string_of_nat (length (models m')) @ '' modelos dispon''
                                          @ [CHR 0xED] @ ''veis'')]))))"

text \<open>
  Lines 40-48: \<^verbatim>\<open>ModelManager()\<close>, started with an empty log. Line 114 runs it when the
  module is imported: an \<open>Inl\<close> here would abort the startup.
\<close>

definition manager_init :: "filesystem \<Rightarrow> string + manager \<times> log" where
  "manager_init fs =
     load_models fs (\<lparr>models = [], scaler = None, model_names = initial_model_names\<rparr>, [])"

text \<open>
  The log lines one artifact leaves: none when the file is absent, the error when it fails
  to unpickle, the confirmation when it loads.
\<close>

definition scaler_log :: "filesystem \<Rightarrow> log" where
  "scaler_log fs =
     (case fs ''scaler.joblib'' of
        None \<Rightarrow> []
      | Some (Corrupt e) \<Rightarrow> [(WARNING, ''Erro scaler: '' @ e)]
      | Some (Pickled _) \<Rightarrow> [(INFO, ''Scaler carregado'')])"

definition model_log :: "filesystem \<Rightarrow> string \<Rightarrow> log" where
  "model_log fs model_key =
     (case fs (model_key @ ''.joblib'') of
        None \<Rightarrow> []
      | Some (Corrupt e) \<Rightarrow> [(ERROR, ''Erro '' @ model_key @ '': '' @ e)]
      | Some (Pickled _) \<Rightarrow> [(INFO, ''Modelo '' @ model_key @ '' carregado'')])"

text \<open>A model artifact that is present and unpickles.\<close>

definition deserializes :: "filesystem \<Rightarrow> string \<Rightarrow> bool" where
  "deserializes fs model_key =
     (case fs (model_key @ ''.joblib'') of Some (Pickled _) \<Rightarrow> True | _ \<Rightarrow> False)"

subsection \<open>Concrete managers and requests\<close>

text \<open>
  The example of the specification: six features, and a stub model whose prediction is
  0.75 and whose class probabilities are 0.2 and 0.8.
\<close>

definition example_features :: "pyfloat list" where
  "example_features = [Fin 0.5, Fin 1.2, Fin (- 0.3), Fin 2, Fin 0, Fin 1]"

definition no_transform :: "matrix \<Rightarrow> string + matrix" where
  "no_transform X = Inl ''object has no attribute transform''"

definition no_predict :: "matrix \<Rightarrow> string + pyfloat list" where
  "no_predict X = Inl ''object has no attribute predict''"

definition stub_model :: pyobj where
  "stub_model =
     \<lparr>obj_truthy = True,
      obj_transform = no_transform,
      obj_predict = (\<lambda>X. Inr [Fin 0.75]),
      obj_predict_proba = Some (\<lambda>X. Inr [[Fin 0.2, Fin 0.8]])\<rparr>"

definition stub_manager :: manager where
  "stub_manager =
     \<lparr>models = [(''logistic_regression'', stub_model)],
      scaler = None,
      model_names = initial_model_names\<rparr>"

text \<open>A manager with no model at all, as after a start in an empty directory.\<close>

definition empty_manager :: manager where
  "empty_manager = \<lparr>models = [], scaler = None, model_names = initial_model_names\<rparr>"

text \<open>
  A regressor-like model: no \<^verbatim>\<open>predict_proba\<close>, and a prediction that is the first feature
  of the row it is given.
\<close>

definition echo_model :: pyobj where
  "echo_model =
     \<lparr>obj_truthy = True,
      obj_transform = no_transform,
      obj_predict = (\<lambda>X. case X of (x # _) # _ \<Rightarrow> Inr [x] | _ \<Rightarrow> Inl ''empty input''),
      obj_predict_proba = None\<rparr>"

definition echo_manager :: manager where
  "echo_manager =
     \<lparr>models = [(''random_forest'', echo_model)],
      scaler = None,
      model_names = initial_model_names\<rparr>"

text \<open>
  A model whose \<^verbatim>\<open>predict_proba\<close> returns a row of zeros while its prediction is 0.9.
\<close>

definition zero_proba_model :: pyobj where
  "zero_proba_model =
     \<lparr>obj_truthy = True,
      obj_transform = no_transform,
      obj_predict = (\<lambda>X. Inr [Fin 0.9]),
      obj_predict_proba = Some (\<lambda>X. Inr [[Fin 0, Fin 0]])\<rparr>"

definition zero_proba_manager :: manager where
  "zero_proba_manager =
     \<lparr>models = [(''logistic_regression'', zero_proba_model)],
      scaler = None,
      model_names = initial_model_names\<rparr>"

text \<open>
  A model whose prediction (0.4) and probability (0.9) fall in different bands.
\<close>

definition split_model :: pyobj where
  "split_model =
     \<lparr>obj_truthy = True,
      obj_transform = no_transform,
      obj_predict = (\<lambda>X. Inr [Fin 0.4]),
      obj_predict_proba = Some (\<lambda>X. Inr [[Fin 0.1, Fin 0.9]])\<rparr>"

definition split_manager :: manager where
  "split_manager =
     \<lparr>models = [(''gradient_boosting'', split_model)],
      scaler = None,
      model_names = initial_model_names\<rparr>"

text \<open>
  Objects fitted on six columns, as the estimators of the training are: given a row of
  another width they raise, otherwise the scaler returns its input and the model the
  stub's outputs.
\<close>

definition width_error :: string where
  "width_error = ''X has a different number of features than the 6 expected''"

definition six_wide :: "matrix \<Rightarrow> bool" where
  "six_wide X = (case X of [] \<Rightarrow> False | row # _ \<Rightarrow> length row = 6)"

definition strict_model :: pyobj where
  "strict_model =
     \<lparr>obj_truthy = True,
      obj_transform = no_transform,
      obj_predict = (\<lambda>X. if six_wide X then Inr [Fin 0.75] else Inl width_error),
      obj_predict_proba =
        Some (\<lambda>X. if six_wide X then Inr [[Fin 0.2, Fin 0.8]] else Inl width_error)\<rparr>"

definition strict_scaler :: pyobj where
  "strict_scaler =
     \<lparr>obj_truthy = True,
      obj_transform = (\<lambda>X. if six_wide X then Inr X else Inl width_error),
      obj_predict = no_predict,
      obj_predict_proba = None\<rparr>"

definition strict_manager :: manager where
  "strict_manager =
     \<lparr>models = [(''random_forest'', strict_model)],
      scaler = None,
      model_names = initial_model_names\<rparr>"

definition scaled_manager :: manager where
  "scaled_manager =
     \<lparr>models = [(''random_forest'', strict_model)],
      scaler = Some strict_scaler,
      model_names = initial_model_names\<rparr>"

text \<open>
  The same manager with a scaler object whose truth value is false (an object with a
  \<^verbatim>\<open>__len__\<close> of zero, as a pipeline without steps): line 81 passes it over.
\<close>

definition falsy_scaler :: pyobj where
  "falsy_scaler = strict_scaler\<lparr>obj_truthy := False\<rparr>"

definition falsy_scaler_manager :: manager where
  "falsy_scaler_manager =
     \<lparr>models = [(''random_forest'', strict_model)],
      scaler = Some falsy_scaler,
      model_names = initial_model_names\<rparr>"

definition five_features :: "pyfloat list" where
  "five_features = [Fin 1, Fin 2, Fin 3, Fin 4, Fin 5]"

text \<open>A model whose prediction succeeds and whose \<^verbatim>\<open>predict_proba\<close> raises.\<close>

definition broken_proba_model :: pyobj where
  "broken_proba_model =
     \<lparr>obj_truthy = True,
      obj_transform = no_transform,
      obj_predict = (\<lambda>X. Inr [Fin 1]),
      obj_predict_proba = Some (\<lambda>X. Inl ''probability estimates are not available'')\<rparr>"

definition broken_proba_manager :: manager where
  "broken_proba_manager =
     \<lparr>models = [(''gradient_boosting'', broken_proba_model)],
      scaler = None,
      model_names = initial_model_names\<rparr>"

text \<open>Two request bodies without a \<^verbatim>\<open>model_name\<close>: five features, and the example's six.\<close>

definition short_body :: request_body where
  "short_body = \<lparr>body_features = five_features, body_model_name = None\<rparr>"

definition example_body :: request_body where
  "example_body = \<lparr>body_features = example_features, body_model_name = None\<rparr>"

text \<open>
  Two working directories: an empty one, and one with a corrupt scaler, a logistic
  regression that unpickles, a corrupt random forest and no gradient boosting.
\<close>

definition empty_fs :: filesystem where
  "empty_fs p = None"

definition example_fs :: filesystem where
  "example_fs p =
     (if p = ''scaler.joblib'' then Some (Corrupt ''invalid load key'')
      else if p = ''logistic_regression.joblib'' then Some (Pickled stub_model)
      else if p = ''random_forest.joblib'' then Some (Corrupt ''unexpected end of file'')
      else None)"

section \<open>Properties\<close>

subsection \<open>Helper lemmas\<close>

lemmas run_defs =
  predict_def select_model_def first_available_def dict_keys_def predict_body_def scale_def
  dict_get_def model_prediction_def model_probability_def score_of_def initial_model_names_def
  py_max_def py_gt_def py_ge_def float_truthy_def confidence_of_def recommendation_of_def Let_def

lemma select_model_key:
  "select_model m requested = Inr k \<Longrightarrow> k \<in> set (dict_keys (models m))"
  by (auto simp: select_model_def first_available_def split: option.splits list.splits if_splits)

lemma dict_get_key:
  "k \<in> set (dict_keys d) \<Longrightarrow> \<exists>v. dict_get d k = Inr v"
  by (auto simp: dict_get_def dict_keys_def map_of_eq_None_iff split: option.splits)

lemma predict_result_shape:
  assumes "snd (predict m fs requested) = Inr r"
  shows "confidence r = confidence_of (score_of (probability r) (prediction r))
       \<and> recommendation r = recommendation_of (prediction r)"
  using assms
  by (auto simp: predict_def predict_body_def split: sum.splits prod.splits)

lemma predict_events_distinct: "distinct (fst (predict m fs requested))"
  by (auto simp: predict_def predict_body_def scale_def model_prediction_def
      model_probability_def Let_def split: sum.splits prod.splits option.splits if_splits)

lemma predict_events_no_dispatch: "Dispatch v n \<notin> set (fst (predict m fs requested))"
  by (auto simp: predict_def predict_body_def scale_def model_prediction_def
      model_probability_def Let_def split: sum.splits prod.splits option.splits if_splits)

text \<open>The runs of the concrete managers.\<close>

lemma echo_run:
  "predict echo_manager [x] None
     = ([ModelPredict ''random_forest'' [[x]]],
        Inr \<lparr>prediction = x, probability = None, confidence = confidence_of x,
             model_used = ''Random Forest'', recommendation = recommendation_of x\<rparr>)"
  by (simp add: predict_def select_model_def first_available_def dict_keys_def echo_manager_def
      echo_model_def predict_body_def scale_def dict_get_def model_prediction_def
      model_probability_def score_of_def initial_model_names_def)

lemma split_run:
  "predict split_manager example_features (Some ''gradient_boosting'')
     = ([ModelPredict ''gradient_boosting'' [example_features],
         ModelPredictProba ''gradient_boosting'' [example_features]],
        Inr \<lparr>prediction = Fin 0.4, probability = Some (Fin 0.9), confidence = label_alto,
             model_used = ''Gradient Boosting'', recommendation = rec_analisar\<rparr>)"
  by (simp add: predict_def select_model_def first_available_def dict_keys_def split_manager_def
      split_model_def predict_body_def scale_def dict_get_def model_prediction_def
      model_probability_def score_of_def initial_model_names_def py_max_def py_gt_def
      float_truthy_def confidence_of_def recommendation_of_def py_ge_def)

lemma stub_run:
  "predict stub_manager example_features (Some ''logistic_regression'')
     = ([ModelPredict ''logistic_regression'' [example_features],
         ModelPredictProba ''logistic_regression'' [example_features]],
        Inr \<lparr>prediction = Fin 0.75, probability = Some (Fin 0.8), confidence = label_alto,
             model_used = ''Regress'' @ [CHR 0xE3] @ ''o Log'' @ [CHR 0xED] @ ''stica'',
             recommendation = rec_aprovacao\<rparr>)"
  by (simp add: run_defs stub_manager_def stub_model_def)

lemma strict_run_five:
  "predict strict_manager five_features (Some ''gradient_boosting'')
     = ([ModelPredict ''random_forest'' [five_features]],
        Inl (HTTPException 500 (''Erro: '' @ width_error)))"
  by (simp add: run_defs strict_manager_def strict_model_def five_features_def six_wide_def)

lemma strict_run_six:
  "predict strict_manager example_features (Some ''gradient_boosting'')
     = ([ModelPredict ''random_forest'' [example_features],
         ModelPredictProba ''random_forest'' [example_features]],
        Inr \<lparr>prediction = Fin 0.75, probability = Some (Fin 0.8), confidence = label_alto,
             model_used = ''Random Forest'', recommendation = rec_aprovacao\<rparr>)"
  by (simp add: run_defs strict_manager_def strict_model_def example_features_def six_wide_def)

lemma scaled_run_five:
  "predict scaled_manager five_features (Some ''random_forest'')
     = ([Transform [five_features]], Inl (HTTPException 500 (''Erro: '' @ width_error)))"
  by (simp add: run_defs scaled_manager_def strict_scaler_def five_features_def six_wide_def)

lemma broken_proba_run:
  "predict broken_proba_manager example_features None
     = ([ModelPredict ''gradient_boosting'' [example_features],
         ModelPredictProba ''gradient_boosting'' [example_features]],
        Inl (HTTPException 500 (''Erro: probability estimates are not available'')))"
  by (simp add: run_defs broken_proba_manager_def broken_proba_model_def)

lemma broken_proba_named_run:
  "predict broken_proba_manager example_features (Some ''gradient_boosting'')
     = ([ModelPredict ''gradient_boosting'' [example_features],
         ModelPredictProba ''gradient_boosting'' [example_features]],
        Inl (HTTPException 500 (''Erro: probability estimates are not available'')))"
  by (simp add: run_defs broken_proba_manager_def broken_proba_model_def)

text \<open>When the body of the \<^verbatim>\<open>try\<close> returns, and whose operations a call invokes.\<close>

lemma scale_outcome:
  "scale m fs = (t, r) \<Longrightarrow>
   (case scaled_input m fs of None \<Rightarrow> (\<exists>e. r = Inl e) | Some X \<Rightarrow> r = Inr X)"
  by (auto simp: scale_def scaled_input_def Let_def split: option.splits sum.splits if_splits)

lemma model_outcome:
  "output_ok model X =
     ((\<exists>t y. model_prediction k model X = (t, Inr y))
      \<and> (\<exists>t p. model_probability k model X = (t, Inr p)))"
  by (auto simp: output_ok_def model_prediction_def model_probability_def
      split: option.splits sum.splits list.splits)

lemma name_outcome:
  "(k \<in> set (dict_keys d)) = (\<exists>v. dict_get d k = Inr v)"
  by (auto simp: dict_get_def dict_keys_def map_of_eq_None_iff
      split: option.splits dest: map_of_SomeD intro: rev_image_eqI)

lemma predict_body_outcome:
  "case snd (predict_body m fs k) of
     Inr r \<Rightarrow> raises_nothing m fs k
   | Inl e \<Rightarrow> \<not> raises_nothing m fs k"
proof -
  obtain t r where sc: "scale m fs = (t, r)"
    by (cases "scale m fs")
  show ?thesis
  proof (cases "scaled_input m fs")
    case None
    then show ?thesis
      using scale_outcome [OF sc] by (auto simp: predict_body_def sc raises_nothing_def)
  next
    case (Some X)
    then have r: "r = Inr X"
      using scale_outcome [OF sc] by simp
    show ?thesis
    proof (cases "map_of (models m) k")
      case None
      then show ?thesis
        by (simp add: predict_body_def sc r raises_nothing_def Some dict_get_def)
    next
      case (Some model)
      then show ?thesis
        using model_outcome [of model X k] name_outcome [of k "model_names m"]
        by (auto simp: predict_body_def sc r raises_nothing_def \<open>scaled_input m fs = Some X\<close>
            dict_get_def split: sum.splits prod.splits option.splits)
    qed
  qed
qed

lemma predict_events_key:
  "ev \<in> set (fst (predict m fs requested)) \<Longrightarrow> select_model m requested = Inr k0 \<Longrightarrow>
   (\<exists>X. ev = Transform X \<or> ev = ModelPredict k0 X \<or> ev = ModelPredictProba k0 X)"
  by (auto simp: predict_def predict_body_def scale_def model_prediction_def
      model_probability_def Let_def split: sum.splits prod.splits option.splits if_splits)

lemma stub_clean: "raises_nothing stub_manager example_features ''logistic_regression''"
  by (simp add: raises_nothing_def scaled_input_def output_ok_def stub_manager_def
      stub_model_def dict_keys_def initial_model_names_def)

lemma broken_proba_unclean:
  "\<not> raises_nothing broken_proba_manager example_features ''gradient_boosting''"
  by (simp add: raises_nothing_def scaled_input_def output_ok_def broken_proba_manager_def
      broken_proba_model_def)

lemma strict_clean_six: "raises_nothing strict_manager example_features ''random_forest''"
  by (simp add: raises_nothing_def scaled_input_def output_ok_def strict_manager_def
      strict_model_def six_wide_def example_features_def dict_keys_def initial_model_names_def)

lemma strict_unclean_five: "\<not> raises_nothing strict_manager five_features ''random_forest''"
  by (simp add: raises_nothing_def scaled_input_def output_ok_def strict_manager_def
      strict_model_def six_wide_def five_features_def)

lemma falsy_run_five:
  "predict falsy_scaler_manager five_features (Some ''random_forest'')
     = ([ModelPredict ''random_forest'' [five_features]],
        Inl (HTTPException 500 (''Erro: '' @ width_error)))"
  by (simp add: run_defs falsy_scaler_manager_def falsy_scaler_def strict_scaler_def
      strict_model_def five_features_def six_wide_def)

lemma scaled_run_six:
  "predict scaled_manager example_features (Some ''random_forest'')
     = ([Transform [example_features], ModelPredict ''random_forest'' [example_features],
         ModelPredictProba ''random_forest'' [example_features]],
        Inr \<lparr>prediction = Fin 0.75, probability = Some (Fin 0.8), confidence = label_alto,
             model_used = ''Random Forest'', recommendation = rec_aprovacao\<rparr>)"
  by (simp add: run_defs scaled_manager_def strict_scaler_def strict_model_def
      example_features_def six_wide_def)

text \<open>The loader, one step and one loop at a time.\<close>

lemma dict_keys_dict_set:
  "k \<notin> set (dict_keys d) \<Longrightarrow> dict_keys (dict_set d k v) = dict_keys d @ [k]"
  by (induction d) (auto simp: dict_keys_def)

lemma load_model_state:
  "load_model fs k (m, lg) =
     Inr ((case fs (k @ ''.joblib'') of
             Some (Pickled obj) \<Rightarrow> m\<lparr>models := dict_set (models m) k obj\<rparr>
           | _ \<Rightarrow> m),
          lg @ model_log fs k)"
  by (simp add: load_model_def try_except_def path_exists_def joblib_load_def model_log_def
      Let_def split: option.splits artifact.splits)

lemma load_scaler_state:
  "load_scaler fs (m, lg) =
     Inr ((case fs ''scaler.joblib'' of
             Some (Pickled obj) \<Rightarrow> m\<lparr>scaler := Some obj\<rparr>
           | _ \<Rightarrow> m),
          lg @ scaler_log fs)"
  by (simp add: load_scaler_def try_except_def path_exists_def joblib_load_def scaler_log_def
      split: option.splits artifact.splits)

lemma load_each_state:
  "distinct ks \<Longrightarrow> set ks \<inter> set (dict_keys (models m)) = {} \<Longrightarrow>
   \<exists>m'. load_each fs ks (m, lg) = Inr (m', lg @ concat (map (model_log fs) ks))
       \<and> dict_keys (models m') = dict_keys (models m) @ filter (deserializes fs) ks
       \<and> scaler m' = scaler m"
proof (induction ks arbitrary: m lg)
  case Nil
  then show ?case by simp
next
  case (Cons k ks)
  define m1 where
    "m1 = (case fs (k @ ''.joblib'') of
             Some (Pickled obj) \<Rightarrow> m\<lparr>models := dict_set (models m) k obj\<rparr>
           | _ \<Rightarrow> m)"
  have step: "load_model fs k (m, lg) = Inr (m1, lg @ model_log fs k)"
    by (simp add: load_model_state m1_def)
  have new: "k \<notin> set (dict_keys (models m))"
    using Cons.prems by auto
  have keys: "dict_keys (models m1) = dict_keys (models m) @ filter (deserializes fs) [k]"
    using new
    by (simp add: m1_def deserializes_def dict_keys_dict_set split: option.splits artifact.splits)
  have sc: "scaler m1 = scaler m"
    by (simp add: m1_def split: option.splits artifact.splits)
  have "distinct ks" and "set ks \<inter> set (dict_keys (models m1)) = {}"
    using Cons.prems keys by auto
  from Cons.IH [OF this, of "lg @ model_log fs k"]
  obtain m' where
    run: "load_each fs ks (m1, lg @ model_log fs k)
            = Inr (m', (lg @ model_log fs k) @ concat (map (model_log fs) ks))"
    and k': "dict_keys (models m') = dict_keys (models m1) @ filter (deserializes fs) ks"
    and s': "scaler m' = scaler m1"
    by blast
  have "load_each fs (k # ks) (m, lg) = Inr (m', lg @ concat (map (model_log fs) (k # ks)))"
    by (simp add: step run)
  moreover have
    "dict_keys (models m') = dict_keys (models m) @ filter (deserializes fs) (k # ks)"
    by (simp add: k' keys)
  moreover have "scaler m' = scaler m"
    by (simp add: s' sc)
  ultimately show ?case by blast
qed

lemma string_of_nat_1: "string_of_nat (Suc 0) = ''1''"
  by code_simp

lemma string_of_nat_0: "string_of_nat 0 = ''0''"
  by code_simp

lemma empty_init:
  "manager_init empty_fs
     = Inr (empty_manager,
            [(INFO, ''Carregando modelos...''),
             (INFO, ''0 modelos dispon'' @ [CHR 0xED] @ ''veis'')])"
  by (simp add: manager_init_def load_models_def load_scaler_state load_model_state
      scaler_log_def model_log_def empty_fs_def empty_manager_def dict_keys_def
      initial_model_names_def string_of_nat_0)

lemma example_init:
  "manager_init example_fs
     = Inr (\<lparr>models = [(''logistic_regression'', stub_model)], scaler = None,
             model_names = initial_model_names\<rparr>,
            [(INFO, ''Carregando modelos...''),
             (WARNING, ''Erro scaler: invalid load key''),
             (INFO, ''Modelo logistic_regression carregado''),
             (ERROR, ''Erro random_forest: unexpected end of file''),
             (INFO, ''1 modelos dispon'' @ [CHR 0xED] @ ''veis'')])"
  by (simp add: manager_init_def load_models_def load_scaler_state load_model_state
      scaler_log_def model_log_def example_fs_def dict_keys_def initial_model_names_def
      string_of_nat_1)

subsection \<open>The score\<close>

text \<open>
  C1. The claim: whenever the model has \<^verbatim>\<open>predict_proba\<close>, the score that is labelled is
  the probability, and the prediction is the score only when no probability was computed.
  Line 92 tests the probability's truth value, not whether it is \<^verbatim>\<open>None\<close>, and a float
  zero is false. For a model whose \<^verbatim>\<open>predict_proba\<close> row is all zeros and whose prediction
  is 0.9, the result reports the probability 0 beside the high confidence label: the score
  was the prediction 0.9, where the probability 0 would have been labelled low.
\<close>

theorem zero_probability_score:
  "snd (predict zero_proba_manager example_features (Some ''logistic_regression''))
     = Inr \<lparr>prediction = Fin 0.9, probability = Some (Fin 0), confidence = label_alto,
            model_used = ''Regress'' @ [CHR 0xE3] @ ''o Log'' @ [CHR 0xED] @ ''stica'',
            recommendation = rec_aprovacao\<rparr>
   \<and> score_of (Some (Fin 0)) (Fin 0.9) = Fin 0.9
   \<and> confidence_of (Fin 0) = label_baixo
   \<and> label_baixo \<noteq> label_alto"
  by (simp add: run_defs zero_proba_manager_def zero_proba_model_def label_baixo_def
      label_alto_def)

text \<open>What line 92 computes, case by case.\<close>

lemma score_of_cases:
  "score_of None y = y"
  "p \<noteq> Fin 0 \<Longrightarrow> score_of (Some p) y = p"
  "score_of (Some (Fin 0)) y = y"
  by (simp_all add: score_of_def float_truthy_def)

subsection \<open>The labels of a result\<close>

text \<open>
  C2, as stated, fails: the strings of the module are Portuguese. The example of the
  specification (six features, the loaded logistic regression, prediction 0.75 and
  probabilities 0.2 and 0.8) returns the confidence \<open>''Alto''\<close>, none of "High", "Medium",
  "Low", and a recommendation that is none of the three English sentences. Nor does every
  call with six features and a loaded identifier return a result: a loaded model whose
  \<^verbatim>\<open>predict_proba\<close> raises ends the call in the 500.
\<close>

theorem labels_not_english:
  "length example_features = 6
   \<and> ''logistic_regression'' \<in> set (dict_keys (models stub_manager))
   \<and> snd (predict stub_manager example_features (Some ''logistic_regression''))
     = Inr \<lparr>prediction = Fin 0.75, probability = Some (Fin 0.8), confidence = ''Alto'',
            model_used = ''Regress'' @ [CHR 0xE3] @ ''o Log'' @ [CHR 0xED] @ ''stica'',
            recommendation = ''Aprova'' @ [CHR 0xE7, CHR 0xE3] @ ''o recomendada''\<rparr>
   \<and> ''Alto'' \<notin> {''High'', ''Medium'', ''Low''}
   \<and> ''Aprova'' @ [CHR 0xE7, CHR 0xE3] @ ''o recomendada''
        \<notin> {''Approval recommended'', ''Review carefully'', ''Not recommended''}
   \<and> ''gradient_boosting'' \<in> set (dict_keys (models broken_proba_manager))
   \<and> snd (predict broken_proba_manager example_features (Some ''gradient_boosting''))
     = Inl (HTTPException 500 ''Erro: probability estimates are not available'')"
proof -
  have "length example_features = 6"
    by (simp add: example_features_def)
  moreover have "''gradient_boosting'' \<in> set (dict_keys (models broken_proba_manager))"
    by (simp add: broken_proba_manager_def dict_keys_def)
  moreover have
    "snd (predict broken_proba_manager example_features (Some ''gradient_boosting''))
     = Inl (HTTPException 500 ''Erro: probability estimates are not available'')"
    by (simp add: broken_proba_named_run)
  moreover have "''logistic_regression'' \<in> set (dict_keys (models stub_manager))"
    by (simp add: stub_manager_def dict_keys_def)
  moreover have "snd (predict stub_manager example_features (Some ''logistic_regression''))
     = Inr \<lparr>prediction = Fin 0.75, probability = Some (Fin 0.8), confidence = ''Alto'',
            model_used = ''Regress'' @ [CHR 0xE3] @ ''o Log'' @ [CHR 0xED] @ ''stica'',
            recommendation = ''Aprova'' @ [CHR 0xE7, CHR 0xE3] @ ''o recomendada''\<rparr>"
    by (simp add: stub_run label_alto_def rec_aprovacao_def)
  ultimately show ?thesis
    by simp
qed

text \<open>
  C2, amended. For every feature list and every loaded model identifier, \<^verbatim>\<open>predict\<close>
  returns a result unless a step of its \<^verbatim>\<open>try\<close> block raises (\<open>raises_nothing\<close>: the
  scaler that line 81 applies, the model's \<^verbatim>\<open>predict\<close> and, when it has one, its
  \<^verbatim>\<open>predict_proba\<close> return, the outputs indexed with \<^verbatim>\<open>[0]\<close> and passed to \<^verbatim>\<open>max\<close> are
  not empty, and the identifier has a display name). The confidence of that result is one
  of \<open>label_alto\<close>, \<open>label_medio\<close>, \<open>label_baixo\<close> and its recommendation one of
  \<open>rec_aprovacao\<close>, \<open>rec_analisar\<close>, \<open>rec_nao\<close>. When a step raises, the call ends in
  the 500 and returns no result.
\<close>

theorem predict_labels:
  assumes "k \<in> set (dict_keys (models m))"
  shows "(raises_nothing m fs k \<longrightarrow>
            (\<exists>r. snd (predict m fs (Some k)) = Inr r
                 \<and> confidence r \<in> {label_alto, label_medio, label_baixo}
                 \<and> recommendation r \<in> {rec_aprovacao, rec_analisar, rec_nao}))
       \<and> (\<not> raises_nothing m fs k \<longrightarrow>
            (\<exists>e. snd (predict m fs (Some k)) = Inl (HTTPException 500 (''Erro: '' @ e))))"
proof -
  have sel: "select_model m (Some k) = Inr k"
    using assms by (simp add: select_model_def)
  obtain t res where body: "predict_body m fs k = (t, res)"
    by (cases "predict_body m fs k")
  show ?thesis
  proof (cases res)
    case (Inl e)
    then have "\<not> raises_nothing m fs k"
      using predict_body_outcome [of m fs k] body by simp
    moreover have "snd (predict m fs (Some k)) = Inl (HTTPException 500 (''Erro: '' @ e))"
      by (simp add: predict_def sel body Inl)
    ultimately show ?thesis by blast
  next
    case (Inr r)
    then have clean: "raises_nothing m fs k"
      using predict_body_outcome [of m fs k] body by simp
    have run: "snd (predict m fs (Some k)) = Inr r"
      by (simp add: predict_def sel body Inr)
    have "confidence r = confidence_of (score_of (probability r) (prediction r))
        \<and> recommendation r = recommendation_of (prediction r)"
      by (rule predict_result_shape [OF run])
    then have "confidence r \<in> {label_alto, label_medio, label_baixo}
        \<and> recommendation r \<in> {rec_aprovacao, rec_analisar, rec_nao}"
      by (simp add: confidence_of_def recommendation_of_def)
    with clean run show ?thesis by blast
  qed
qed

theorem predict_labels_witness:
  "''logistic_regression'' \<in> set (dict_keys (models stub_manager))
   \<and> raises_nothing stub_manager example_features ''logistic_regression''
   \<and> snd (predict stub_manager example_features (Some ''logistic_regression''))
     = Inr \<lparr>prediction = Fin 0.75, probability = Some (Fin 0.8), confidence = label_alto,
            model_used = ''Regress'' @ [CHR 0xE3] @ ''o Log'' @ [CHR 0xED] @ ''stica'',
            recommendation = rec_aprovacao\<rparr>
   \<and> ''gradient_boosting'' \<in> set (dict_keys (models broken_proba_manager))
   \<and> \<not> raises_nothing broken_proba_manager example_features ''gradient_boosting''
   \<and> snd (predict broken_proba_manager example_features (Some ''gradient_boosting''))
     = Inl (HTTPException 500 ''Erro: probability estimates are not available'')"
proof -
  have k1: "''logistic_regression'' \<in> set (dict_keys (models stub_manager))"
    by (simp add: stub_manager_def dict_keys_def)
  have k2: "''gradient_boosting'' \<in> set (dict_keys (models broken_proba_manager))"
    by (simp add: broken_proba_manager_def dict_keys_def)
  show ?thesis
    using k1 k2 stub_clean broken_proba_unclean
      predict_labels [OF k1, of example_features] predict_labels [OF k2, of example_features]
    by (simp add: stub_run broken_proba_named_run)
qed

subsection \<open>Confidence and recommendation bands\<close>

text \<open>
  C3. In every result of \<^verbatim>\<open>predict\<close> the confidence label is a function of the score
  (line 92's \<^verbatim>\<open>score\<close>, recomputed here from the result's probability and prediction)
  with the literal thresholds: the high label when \<^verbatim>\<open>score >= 0.8\<close>, the medium label when
  \<^verbatim>\<open>0.6 <= score < 0.8\<close>, the low label otherwise (NaN included). The witness runs the
  boundaries: 0.8 is high, 0.6 is medium, 0.59 is low.
\<close>

theorem confidence_thresholds:
  assumes "snd (predict m fs requested) = Inr r"
  shows "confidence r =
           (let score = score_of (probability r) (prediction r) in
            if py_ge score (Fin 0.8) then label_alto
            else if py_le (Fin 0.6) score \<and> py_lt score (Fin 0.8) then label_medio
            else label_baixo)"
proof -
  have "confidence r = confidence_of (score_of (probability r) (prediction r))"
    using predict_result_shape [OF assms] by simp
  then show ?thesis
    by (cases "score_of (probability r) (prediction r)")
       (auto simp: confidence_of_def Let_def py_ge_def)
qed

theorem confidence_thresholds_witness:
  "snd (predict echo_manager [Fin 0.8] None)
     = Inr \<lparr>prediction = Fin 0.8, probability = None, confidence = label_alto,
            model_used = ''Random Forest'', recommendation = rec_aprovacao\<rparr>
   \<and> snd (predict echo_manager [Fin 0.6] None)
     = Inr \<lparr>prediction = Fin 0.6, probability = None, confidence = label_medio,
            model_used = ''Random Forest'', recommendation = rec_analisar\<rparr>
   \<and> snd (predict echo_manager [Fin 0.59] None)
     = Inr \<lparr>prediction = Fin 0.59, probability = None, confidence = label_baixo,
            model_used = ''Random Forest'', recommendation = rec_analisar\<rparr>"
proof -
  have h1: "snd (predict echo_manager [Fin 0.8] None)
     = Inr \<lparr>prediction = Fin 0.8, probability = None, confidence = label_alto,
            model_used = ''Random Forest'', recommendation = rec_aprovacao\<rparr>"
    by (simp add: echo_run confidence_of_def recommendation_of_def py_ge_def)
  have h2: "snd (predict echo_manager [Fin 0.6] None)
     = Inr \<lparr>prediction = Fin 0.6, probability = None, confidence = label_medio,
            model_used = ''Random Forest'', recommendation = rec_analisar\<rparr>"
    by (simp add: echo_run confidence_of_def recommendation_of_def py_ge_def)
  have h3: "snd (predict echo_manager [Fin 0.59] None)
     = Inr \<lparr>prediction = Fin 0.59, probability = None, confidence = label_baixo,
            model_used = ''Random Forest'', recommendation = rec_analisar\<rparr>"
    by (simp add: echo_run confidence_of_def recommendation_of_def py_ge_def)
  show ?thesis
    using h1 h2 h3 confidence_thresholds [OF h1] confidence_thresholds [OF h2]
      confidence_thresholds [OF h3]
    by simp
qed

text \<open>
  C4. In every result of \<^verbatim>\<open>predict\<close> the recommendation is a function of the raw
  prediction, whether or not a probability was computed: approval when
  \<^verbatim>\<open>prediction >= 0.7\<close>, review when \<^verbatim>\<open>0.4 <= prediction < 0.7\<close>, not recommended otherwise.
  In the witness, a model with prediction 0.4 and probability 0.9 gets the high confidence
  label and the review recommendation.
\<close>

theorem recommendation_thresholds:
  assumes "snd (predict m fs requested) = Inr r"
  shows "recommendation r =
           (if py_ge (prediction r) (Fin 0.7) then rec_aprovacao
            else if py_le (Fin 0.4) (prediction r) \<and> py_lt (prediction r) (Fin 0.7)
                 then rec_analisar
            else rec_nao)"
proof -
  have "recommendation r = recommendation_of (prediction r)"
    using predict_result_shape [OF assms] by simp
  then show ?thesis
    by (cases "prediction r") (auto simp: recommendation_of_def py_ge_def)
qed

theorem recommendation_thresholds_witness:
  "snd (predict echo_manager [Fin 0.7] None)
     = Inr \<lparr>prediction = Fin 0.7, probability = None, confidence = label_medio,
            model_used = ''Random Forest'', recommendation = rec_aprovacao\<rparr>
   \<and> snd (predict split_manager example_features (Some ''gradient_boosting''))
     = Inr \<lparr>prediction = Fin 0.4, probability = Some (Fin 0.9), confidence = label_alto,
            model_used = ''Gradient Boosting'', recommendation = rec_analisar\<rparr>
   \<and> snd (predict echo_manager [Fin 0.39] None)
     = Inr \<lparr>prediction = Fin 0.39, probability = None, confidence = label_baixo,
            model_used = ''Random Forest'', recommendation = rec_nao\<rparr>"
proof -
  have h1: "snd (predict echo_manager [Fin 0.7] None)
     = Inr \<lparr>prediction = Fin 0.7, probability = None, confidence = label_medio,
            model_used = ''Random Forest'', recommendation = rec_aprovacao\<rparr>"
    by (simp add: echo_run confidence_of_def recommendation_of_def py_ge_def)
  have h2: "snd (predict split_manager example_features (Some ''gradient_boosting''))
     = Inr \<lparr>prediction = Fin 0.4, probability = Some (Fin 0.9), confidence = label_alto,
            model_used = ''Gradient Boosting'', recommendation = rec_analisar\<rparr>"
    by (simp add: split_run)
  have h3: "snd (predict echo_manager [Fin 0.39] None)
     = Inr \<lparr>prediction = Fin 0.39, probability = None, confidence = label_baixo,
            model_used = ''Random Forest'', recommendation = rec_nao\<rparr>"
    by (simp add: echo_run confidence_of_def recommendation_of_def py_ge_def)
  show ?thesis
    using h1 h2 h3 recommendation_thresholds [OF h1] recommendation_thresholds [OF h2]
      recommendation_thresholds [OF h3]
    by simp
qed

subsection \<open>Model selection\<close>

text \<open>
  C5, as stated, fails: with the requested identifier absent and another model loaded,
  \<^verbatim>\<open>predict\<close> does not succeed for every feature list. With only a random forest fitted
  on six columns loaded, a request for the gradient boosting with five features falls back
  to the random forest, whose \<^verbatim>\<open>predict\<close> raises, and the call ends in the 500.
\<close>

theorem fallback_can_fail:
  "''gradient_boosting'' \<notin> set (dict_keys (models strict_manager))
   \<and> models strict_manager \<noteq> []
   \<and> predict strict_manager five_features (Some ''gradient_boosting'')
     = ([ModelPredict ''random_forest'' [five_features]],
        Inl (HTTPException 500 (''Erro: '' @ width_error)))"
  by (simp add: strict_run_five) (simp add: strict_manager_def dict_keys_def)

text \<open>
  C5, amended. When the requested identifier is not a key of the non-empty dictionary of
  models (or is \<^verbatim>\<open>None\<close>), the first key in insertion order is selected and the call is
  in every respect the call that requests that first key: it never raises the 503, it
  invokes no other model, and unless a step of the \<^verbatim>\<open>try\<close> block raises
  (\<open>raises_nothing\<close>) it returns a result whose \<^verbatim>\<open>model_used\<close> is the display name of that
  first key. When a step raises, the call ends in the 500.
\<close>

theorem predict_fallback:
  assumes "models m = (k0, obj0) # rest"
    and "requested \<notin> Some ` set (dict_keys (models m))"
  shows "select_model m requested = Inr k0
       \<and> predict m fs requested = predict m fs (Some k0)
       \<and> (raises_nothing m fs k0 \<longrightarrow>
            (\<exists>r. snd (predict m fs requested) = Inr r
                 \<and> map_of (model_names m) k0 = Some (model_used r)))
       \<and> (\<not> raises_nothing m fs k0 \<longrightarrow>
            (\<exists>e. snd (predict m fs requested) = Inl (HTTPException 500 (''Erro: '' @ e))))
       \<and> (\<forall>k X. ModelPredict k X \<in> set (fst (predict m fs requested))
                  \<or> ModelPredictProba k X \<in> set (fst (predict m fs requested))
                \<longrightarrow> k = k0)"
proof -
  have sel: "select_model m requested = Inr k0"
    using assms by (cases requested) (auto simp: select_model_def first_available_def dict_keys_def)
  have sel0: "select_model m (Some k0) = Inr k0"
    using assms(1) by (simp add: select_model_def dict_keys_def)
  have eq: "predict m fs requested = predict m fs (Some k0)"
    by (simp add: predict_def sel sel0)
  obtain t res where body: "predict_body m fs k0 = (t, res)"
    by (cases "predict_body m fs k0")
  have ok: "raises_nothing m fs k0 \<longrightarrow>
            (\<exists>r. snd (predict m fs requested) = Inr r
                 \<and> map_of (model_names m) k0 = Some (model_used r))"
  proof (cases res)
    case (Inl e)
    then show ?thesis
      using predict_body_outcome [of m fs k0] body by simp
  next
    case (Inr r)
    have "snd (predict m fs requested) = Inr r"
      by (simp add: predict_def sel body Inr)
    moreover have "map_of (model_names m) k0 = Some (model_used r)"
      using body Inr
      by (auto simp: predict_body_def dict_get_def split: sum.splits prod.splits option.splits)
    ultimately show ?thesis by blast
  qed
  have ko: "\<not> raises_nothing m fs k0 \<longrightarrow>
            (\<exists>e. snd (predict m fs requested) = Inl (HTTPException 500 (''Erro: '' @ e)))"
  proof (cases res)
    case (Inl e)
    then have "snd (predict m fs requested) = Inl (HTTPException 500 (''Erro: '' @ e))"
      by (simp add: predict_def sel body)
    then show ?thesis by blast
  next
    case (Inr r)
    then show ?thesis
      using predict_body_outcome [of m fs k0] body by simp
  qed
  have ev: "\<forall>k X. ModelPredict k X \<in> set (fst (predict m fs requested))
                  \<or> ModelPredictProba k X \<in> set (fst (predict m fs requested))
                \<longrightarrow> k = k0"
    using predict_events_key [OF _ sel, of _ fs] by blast
  show ?thesis
    by (intro conjI sel eq ok ko ev)
qed

theorem predict_fallback_witness:
  "models strict_manager = [(''random_forest'', strict_model)]
   \<and> Some ''gradient_boosting'' \<notin> Some ` set (dict_keys (models strict_manager))
   \<and> select_model strict_manager (Some ''gradient_boosting'') = Inr ''random_forest''
   \<and> raises_nothing strict_manager example_features ''random_forest''
   \<and> predict strict_manager example_features (Some ''gradient_boosting'')
     = ([ModelPredict ''random_forest'' [example_features],
         ModelPredictProba ''random_forest'' [example_features]],
        Inr \<lparr>prediction = Fin 0.75, probability = Some (Fin 0.8), confidence = label_alto,
             model_used = ''Random Forest'', recommendation = rec_aprovacao\<rparr>)
   \<and> map_of (model_names strict_manager) ''random_forest'' = Some ''Random Forest''
   \<and> \<not> raises_nothing strict_manager five_features ''random_forest''
   \<and> predict strict_manager five_features (Some ''gradient_boosting'')
     = ([ModelPredict ''random_forest'' [five_features]],
        Inl (HTTPException 500 (''Erro: '' @ width_error)))"
proof -
  have a: "models strict_manager = (''random_forest'', strict_model) # []"
    by (simp add: strict_manager_def)
  have b: "Some ''gradient_boosting'' \<notin> Some ` set (dict_keys (models strict_manager))"
    by (simp add: strict_manager_def dict_keys_def)
  have c: "select_model strict_manager (Some ''gradient_boosting'') = Inr ''random_forest''"
    by (rule predict_fallback [OF a b, THEN conjunct1])
  have d: "map_of (model_names strict_manager) ''random_forest'' = Some ''Random Forest''"
    using predict_fallback [OF a b, of example_features, THEN conjunct2, THEN conjunct2,
        THEN conjunct1, rule_format, OF strict_clean_six]
    by (auto simp: strict_run_six)
  show ?thesis
    using a b c d strict_clean_six strict_unclean_five
    by (simp add: strict_run_six strict_run_five)
qed

text \<open>
  C6. When the dictionary of loaded models is empty, \<^verbatim>\<open>predict\<close> raises the 503
  (detail \<open>detail_nenhum_modelo\<close>) for every feature list and every requested identifier
  (also for no identifier); it returns no result and calls nothing on the way.
\<close>

theorem predict_no_models:
  "models m = [] \<Longrightarrow>
   predict m fs requested = ([], Inl (HTTPException 503 detail_nenhum_modelo))"
  by (simp add: predict_def select_model_def first_available_def dict_keys_def
           split: option.splits)

theorem predict_no_models_witness:
  "models empty_manager = [] \<and>
   predict empty_manager example_features (Some ''random_forest'')
     = ([], Inl (HTTPException 503 detail_nenhum_modelo))"
  using predict_no_models [of empty_manager example_features "Some ''random_forest''"]
  by (simp add: empty_manager_def)

subsection \<open>Errors inside the try block\<close>

text \<open>
  C7. Once a model is selected, an error raised by the scaler's \<^verbatim>\<open>transform\<close>, by the
  model's \<^verbatim>\<open>predict\<close> or by its \<^verbatim>\<open>predict_proba\<close> ends the call with the one 500
  whose detail is "Erro: " followed by the error's text. No result is returned, the failed
  call is the last event, and no operation is ever called twice. (Building the one-row
  matrix from a list of floats cannot fail.) The witness runs one failure of each kind.
\<close>

theorem predict_internal_error:
  assumes "select_model m requested = Inr k"
    and "dict_get (models m) k = Inr model"
  shows "(\<forall>s e. scaler m = Some s \<and> obj_truthy s \<and> obj_transform s [fs] = Inl e \<longrightarrow>
            predict m fs requested
              = ([Transform [fs]], Inl (HTTPException 500 (''Erro: '' @ e))))
       \<and> (\<forall>t X e. scale m fs = (t, Inr X) \<and> obj_predict model X = Inl e \<longrightarrow>
            predict m fs requested
              = (t @ [ModelPredict k X], Inl (HTTPException 500 (''Erro: '' @ e))))
       \<and> (\<forall>t X y ys proba e.
            scale m fs = (t, Inr X) \<and> obj_predict model X = Inr (y # ys)
            \<and> obj_predict_proba model = Some proba \<and> proba X = Inl e \<longrightarrow>
            predict m fs requested
              = (t @ [ModelPredict k X, ModelPredictProba k X],
                 Inl (HTTPException 500 (''Erro: '' @ e))))
       \<and> distinct (fst (predict m fs requested))"
proof (intro conjI allI impI)
  fix s e
  assume "scaler m = Some s \<and> obj_truthy s \<and> obj_transform s [fs] = Inl e"
  then show "predict m fs requested = ([Transform [fs]], Inl (HTTPException 500 (''Erro: '' @ e)))"
    using assms by (simp add: predict_def predict_body_def scale_def)
next
  fix t X e
  assume "scale m fs = (t, Inr X) \<and> obj_predict model X = Inl e"
  then show "predict m fs requested
              = (t @ [ModelPredict k X], Inl (HTTPException 500 (''Erro: '' @ e)))"
    using assms by (simp add: predict_def predict_body_def model_prediction_def)
next
  fix t X y ys proba e
  assume "scale m fs = (t, Inr X) \<and> obj_predict model X = Inr (y # ys)
            \<and> obj_predict_proba model = Some proba \<and> proba X = Inl e"
  then show "predict m fs requested
              = (t @ [ModelPredict k X, ModelPredictProba k X],
                 Inl (HTTPException 500 (''Erro: '' @ e)))"
    using assms
    by (simp add: predict_def predict_body_def model_prediction_def model_probability_def)
next
  show "distinct (fst (predict m fs requested))"
    by (rule predict_events_distinct)
qed

theorem predict_internal_error_witness:
  "select_model scaled_manager (Some ''random_forest'') = Inr ''random_forest''
   \<and> dict_get (models scaled_manager) ''random_forest'' = Inr strict_model
   \<and> scaler scaled_manager = Some strict_scaler
   \<and> obj_truthy strict_scaler
   \<and> obj_transform strict_scaler [five_features] = Inl width_error
   \<and> predict scaled_manager five_features (Some ''random_forest'')
       = ([Transform [five_features]], Inl (HTTPException 500 (''Erro: '' @ width_error)))
   \<and> select_model strict_manager (Some ''gradient_boosting'') = Inr ''random_forest''
   \<and> dict_get (models strict_manager) ''random_forest'' = Inr strict_model
   \<and> scale strict_manager five_features = ([], Inr [five_features])
   \<and> obj_predict strict_model [five_features] = Inl width_error
   \<and> predict strict_manager five_features (Some ''gradient_boosting'')
       = ([ModelPredict ''random_forest'' [five_features]],
          Inl (HTTPException 500 (''Erro: '' @ width_error)))
   \<and> select_model broken_proba_manager None = Inr ''gradient_boosting''
   \<and> dict_get (models broken_proba_manager) ''gradient_boosting'' = Inr broken_proba_model
   \<and> scale broken_proba_manager example_features = ([], Inr [example_features])
   \<and> obj_predict broken_proba_model [example_features] = Inr [Fin 1]
   \<and> predict broken_proba_manager example_features None
       = ([ModelPredict ''gradient_boosting'' [example_features],
           ModelPredictProba ''gradient_boosting'' [example_features]],
          Inl (HTTPException 500 ''Erro: probability estimates are not available''))"
proof -
  have a1: "select_model scaled_manager (Some ''random_forest'') = Inr ''random_forest''"
    and a2: "dict_get (models scaled_manager) ''random_forest'' = Inr strict_model"
    and a3: "scaler scaled_manager = Some strict_scaler \<and> obj_truthy strict_scaler
             \<and> obj_transform strict_scaler [five_features] = Inl width_error"
    by (simp_all add: select_model_def dict_keys_def dict_get_def scaled_manager_def
        strict_scaler_def six_wide_def five_features_def)
  have b1: "select_model strict_manager (Some ''gradient_boosting'') = Inr ''random_forest''"
    and b2: "dict_get (models strict_manager) ''random_forest'' = Inr strict_model"
    and b3: "scale strict_manager five_features = ([], Inr [five_features])
             \<and> obj_predict strict_model [five_features] = Inl width_error"
    by (simp_all add: select_model_def first_available_def dict_keys_def dict_get_def
        strict_manager_def scale_def strict_model_def six_wide_def five_features_def)
  have c1: "select_model broken_proba_manager None = Inr ''gradient_boosting''"
    and c2: "dict_get (models broken_proba_manager) ''gradient_boosting''
               = Inr broken_proba_model"
    and c3: "scale broken_proba_manager example_features = ([], Inr [example_features])
             \<and> obj_predict broken_proba_model [example_features] = Inr (Fin 1 # [])
             \<and> obj_predict_proba broken_proba_model
                 = Some (\<lambda>X. Inl ''probability estimates are not available'')
             \<and> (\<lambda>X. Inl ''probability estimates are not available'') [example_features]
                 = (Inl ''probability estimates are not available'' :: string + matrix)"
    by (simp_all add: select_model_def first_available_def dict_keys_def dict_get_def
        broken_proba_manager_def scale_def broken_proba_model_def)
  note t1 = predict_internal_error [OF a1 a2, of five_features, THEN conjunct1, rule_format, OF a3]
  note t2 = predict_internal_error [OF b1 b2, of five_features, THEN conjunct2, THEN conjunct1,
      rule_format, OF b3]
  note t3 = predict_internal_error [OF c1 c2, of example_features, THEN conjunct2,
      THEN conjunct2, THEN conjunct1, rule_format, OF c3]
  show ?thesis
    using a1 a2 a3 b1 b2 b3 c1 c2 c3 t1 t2 t3 by simp
qed

subsection \<open>Loading the artifacts\<close>

text \<open>
  C8, as stated, fails: not every artifact that is missing or fails to unpickle is
  logged. In a directory with a corrupt scaler, a logistic regression that loads, a
  corrupt random forest and no gradient boosting file, the log has a line for each of the
  first three and none for the gradient boosting: lines 54 and 63 test \<^verbatim>\<open>exists()\<close> and
  have no \<^verbatim>\<open>else\<close>.
\<close>

theorem missing_artifact_not_logged:
  "example_fs ''gradient_boosting.joblib'' = None
   \<and> manager_init example_fs
     = Inr (\<lparr>models = [(''logistic_regression'', stub_model)], scaler = None,
             model_names = initial_model_names\<rparr>,
            [(INFO, ''Carregando modelos...''),
             (WARNING, ''Erro scaler: invalid load key''),
             (INFO, ''Modelo logistic_regression carregado''),
             (ERROR, ''Erro random_forest: unexpected end of file''),
             (INFO, ''1 modelos dispon'' @ [CHR 0xED] @ ''veis'')])"
  by (simp add: example_init) (simp add: example_fs_def)

text \<open>
  C8, amended. For every state of the working directory \<^verbatim>\<open>ModelManager()\<close> returns a
  manager and a log and raises nothing (zero loaded models included). The keys of the
  loaded models are exactly the known identifiers whose artifact is present and unpickles,
  in the order of \<^verbatim>\<open>model_names\<close>, so their count is the number of such artifacts. The log
  is the opening line, the scaler's lines, each model's lines in order, and the line with
  the count. An artifact that is present and fails to unpickle is logged (an error for a
  model, a warning for the scaler) and omitted; an artifact that is missing is omitted
  and leaves no log line.
\<close>

theorem load_models_never_fails:
  "\<exists>m lg. manager_init fs = Inr (m, lg)
     \<and> dict_keys (models m) = filter (deserializes fs) (dict_keys initial_model_names)
     \<and> length (models m) = length (filter (deserializes fs) (dict_keys initial_model_names))
     \<and> lg = [(INFO, ''Carregando modelos...'')] @ scaler_log fs
              @ concat (map (model_log fs) (dict_keys initial_model_names))
              @ [(INFO, string_of_nat (length (models m)) @ '' modelos dispon''
                          @ [CHR 0xED] @ ''veis'')]
     \<and> (\<forall>k e. k \<in> set (dict_keys initial_model_names)
                \<and> fs (k @ ''.joblib'') = Some (Corrupt e) \<longrightarrow>
            (ERROR, ''Erro '' @ k @ '': '' @ e) \<in> set lg
            \<and> model_log fs k = [(ERROR, ''Erro '' @ k @ '': '' @ e)]
            \<and> k \<notin> set (dict_keys (models m)))
     \<and> (\<forall>k. fs (k @ ''.joblib'') = None \<longrightarrow>
            model_log fs k = [] \<and> k \<notin> set (dict_keys (models m)))
     \<and> (\<forall>e. fs ''scaler.joblib'' = Some (Corrupt e) \<longrightarrow>
            (WARNING, ''Erro scaler: '' @ e) \<in> set lg
            \<and> scaler_log fs = [(WARNING, ''Erro scaler: '' @ e)]
            \<and> scaler m = None)
     \<and> (fs ''scaler.joblib'' = None \<longrightarrow> scaler_log fs = [] \<and> scaler m = None)"
proof -
  define m0 where "m0 = \<lparr>models = [], scaler = None, model_names = initial_model_names\<rparr>"
  define lg0 where "lg0 = [(INFO, ''Carregando modelos...'')]"
  define ks where "ks = dict_keys initial_model_names"
  define m1 where
    "m1 = (case fs ''scaler.joblib'' of
             Some (Pickled obj) \<Rightarrow> m0\<lparr>scaler := Some obj\<rparr>
           | _ \<Rightarrow> m0)"
  have s1: "load_scaler fs (m0, lg0) = Inr (m1, lg0 @ scaler_log fs)"
    by (simp add: load_scaler_state m1_def)
  have m1: "models m1 = []"
    by (simp add: m1_def m0_def split: option.splits artifact.splits)
  have dist: "distinct ks"
    by (simp add: ks_def dict_keys_def initial_model_names_def)
  have "set ks \<inter> set (dict_keys (models m1)) = {}"
    by (simp add: m1 dict_keys_def)
  from load_each_state [OF dist this, of fs "lg0 @ scaler_log fs"]
  obtain m2 where
    s2: "load_each fs ks (m1, lg0 @ scaler_log fs)
           = Inr (m2, (lg0 @ scaler_log fs) @ concat (map (model_log fs) ks))"
    and k2: "dict_keys (models m2) = dict_keys (models m1) @ filter (deserializes fs) ks"
    and sc2: "scaler m2 = scaler m1"
    by blast
  define lg3 where
    "lg3 = lg0 @ scaler_log fs @ concat (map (model_log fs) ks)
             @ [(INFO, string_of_nat (length (models m2)) @ '' modelos dispon''
                         @ [CHR 0xED] @ ''veis'')]"
  have mn: "model_names m0 = initial_model_names"
    by (simp add: m0_def)
  have init: "manager_init fs = Inr (m2, lg3)"
    by (simp add: manager_init_def load_models_def m0_def [symmetric] lg0_def [symmetric]
        s1 mn ks_def [symmetric] s2 lg3_def)
  have keys: "dict_keys (models m2) = filter (deserializes fs) ks"
    using k2 by (simp add: m1 dict_keys_def)
  have len: "length (models m2) = length (filter (deserializes fs) ks)"
    using keys by (metis dict_keys_def length_map)
  have errs: "(ERROR, ''Erro '' @ k @ '': '' @ e) \<in> set lg3
            \<and> model_log fs k = [(ERROR, ''Erro '' @ k @ '': '' @ e)]
            \<and> k \<notin> set (dict_keys (models m2))"
    if "k \<in> set ks \<and> fs (k @ ''.joblib'') = Some (Corrupt e)" for k e
  proof -
    have ml: "model_log fs k = [(ERROR, ''Erro '' @ k @ '': '' @ e)]"
      using that by (simp add: model_log_def)
    have "set (model_log fs k) \<subseteq> set (concat (map (model_log fs) ks))"
      using that by auto
    then have "(ERROR, ''Erro '' @ k @ '': '' @ e) \<in> set lg3"
      by (auto simp: ml lg3_def)
    moreover have "\<not> deserializes fs k"
      using that by (simp add: deserializes_def)
    ultimately show ?thesis
      by (simp add: ml keys)
  qed
  have miss: "model_log fs k = [] \<and> k \<notin> set (dict_keys (models m2))"
    if "fs (k @ ''.joblib'') = None" for k
    using that by (simp add: model_log_def keys deserializes_def)
  have sc: "(WARNING, ''Erro scaler: '' @ e) \<in> set lg3
            \<and> scaler_log fs = [(WARNING, ''Erro scaler: '' @ e)]
            \<and> scaler m2 = None"
    if "fs ''scaler.joblib'' = Some (Corrupt e)" for e
    using that by (simp add: scaler_log_def lg3_def sc2 m1_def m0_def)
  have nosc: "fs ''scaler.joblib'' = None \<longrightarrow> scaler_log fs = [] \<and> scaler m2 = None"
    by (simp add: scaler_log_def sc2 m1_def m0_def)
  have lg: "lg3 = [(INFO, ''Carregando modelos...'')] @ scaler_log fs
              @ concat (map (model_log fs) ks)
              @ [(INFO, string_of_nat (length (models m2)) @ '' modelos dispon''
                          @ [CHR 0xED] @ ''veis'')]"
    by (simp add: lg3_def lg0_def)
  have errs': "\<forall>k e. k \<in> set ks \<and> fs (k @ ''.joblib'') = Some (Corrupt e) \<longrightarrow>
            (ERROR, ''Erro '' @ k @ '': '' @ e) \<in> set lg3
            \<and> model_log fs k = [(ERROR, ''Erro '' @ k @ '': '' @ e)]
            \<and> k \<notin> set (dict_keys (models m2))"
    using errs by blast
  have miss': "\<forall>k. fs (k @ ''.joblib'') = None \<longrightarrow>
            model_log fs k = [] \<and> k \<notin> set (dict_keys (models m2))"
    using miss by blast
  have sc': "\<forall>e. fs ''scaler.joblib'' = Some (Corrupt e) \<longrightarrow>
            (WARNING, ''Erro scaler: '' @ e) \<in> set lg3
            \<and> scaler_log fs = [(WARNING, ''Erro scaler: '' @ e)]
            \<and> scaler m2 = None"
    using sc by blast
  show ?thesis
    unfolding ks_def [symmetric]
    by (intro exI [of _ m2] exI [of _ lg3] conjI init keys len lg errs' miss' sc' nosc)
qed

theorem load_models_never_fails_witness:
  "manager_init example_fs
     = Inr (\<lparr>models = [(''logistic_regression'', stub_model)], scaler = None,
             model_names = initial_model_names\<rparr>,
            [(INFO, ''Carregando modelos...''),
             (WARNING, ''Erro scaler: invalid load key''),
             (INFO, ''Modelo logistic_regression carregado''),
             (ERROR, ''Erro random_forest: unexpected end of file''),
             (INFO, ''1 modelos dispon'' @ [CHR 0xED] @ ''veis'')])
   \<and> filter (deserializes example_fs) (dict_keys initial_model_names) = [''logistic_regression'']
   \<and> example_fs ''random_forest.joblib'' = Some (Corrupt ''unexpected end of file'')
   \<and> model_log example_fs ''random_forest''
       = [(ERROR, ''Erro random_forest: unexpected end of file'')]
   \<and> example_fs ''scaler.joblib'' = Some (Corrupt ''invalid load key'')
   \<and> scaler_log example_fs = [(WARNING, ''Erro scaler: invalid load key'')]
   \<and> example_fs ''gradient_boosting.joblib'' = None
   \<and> model_log example_fs ''gradient_boosting'' = []
   \<and> manager_init empty_fs
     = Inr (empty_manager,
            [(INFO, ''Carregando modelos...''),
             (INFO, ''0 modelos dispon'' @ [CHR 0xED] @ ''veis'')])
   \<and> filter (deserializes empty_fs) (dict_keys initial_model_names) = []
   \<and> empty_fs ''scaler.joblib'' = None
   \<and> scaler_log empty_fs = []"
proof -
  have a: "filter (deserializes example_fs) (dict_keys initial_model_names)
             = [''logistic_regression'']"
    by (simp add: deserializes_def example_fs_def dict_keys_def initial_model_names_def)
  have b: "filter (deserializes empty_fs) (dict_keys initial_model_names) = []"
    by (simp add: deserializes_def empty_fs_def)
  have c: "example_fs ''random_forest.joblib'' = Some (Corrupt ''unexpected end of file'')
         \<and> example_fs ''scaler.joblib'' = Some (Corrupt ''invalid load key'')
         \<and> example_fs ''gradient_boosting.joblib'' = None
         \<and> empty_fs ''scaler.joblib'' = None"
    by (simp add: example_fs_def empty_fs_def)
  have d: "model_log example_fs ''random_forest''
             = [(ERROR, ''Erro random_forest: unexpected end of file'')]
         \<and> scaler_log example_fs = [(WARNING, ''Erro scaler: invalid load key'')]
         \<and> model_log example_fs ''gradient_boosting'' = []
         \<and> scaler_log empty_fs = []"
    by (simp add: model_log_def scaler_log_def example_fs_def empty_fs_def)
  show ?thesis
    using a b c d load_models_never_fails [of example_fs] load_models_never_fails [of empty_fs]
    by (simp add: example_init empty_init)
qed

subsection \<open>The number of features\<close>

text \<open>
  C9. A request body whose feature list does not have exactly six elements is refused by
  the validation with the ValueError's message, and the dispatcher is not called; every
  call of the dispatcher made by the endpoint passes the body's features, six of them.
\<close>

theorem endpoint_validates_features:
  "(length (body_features b) \<noteq> 6 \<longrightarrow>
      predict_endpoint m b = ([], Inl (RequestValidationError msg_seis)))
   \<and> (\<forall>v n. Dispatch v n \<in> set (fst (predict_endpoint m b)) \<longrightarrow>
        v = body_features b \<and> length v = 6)"
proof (cases "length (body_features b) = 6")
  case False
  then have "predict_endpoint m b = ([], Inl (RequestValidationError msg_seis))"
    by (simp add: predict_endpoint_def make_request_def validate_features_def)
  then show ?thesis by simp
next
  case True
  define nm where
    "nm = (case body_model_name b of None \<Rightarrow> Some ''logistic_regression'' | Some x \<Rightarrow> x)"
  have ev: "fst (predict_endpoint m b)
          = Dispatch (body_features b) nm # fst (predict m (body_features b) nm)"
    using True
    by (simp add: predict_endpoint_def make_request_def validate_features_def nm_def
        split: prod.splits sum.splits)
  have "v = body_features b" if "Dispatch v n \<in> set (fst (predict_endpoint m b))" for v n
    using that ev predict_events_no_dispatch [of v n m "body_features b" nm] by auto
  with True show ?thesis by auto
qed

theorem endpoint_validates_features_witness:
  "length (body_features short_body) = 5
   \<and> predict_endpoint stub_manager short_body = ([], Inl (RequestValidationError msg_seis))
   \<and> Dispatch example_features (Some ''logistic_regression'')
         \<in> set (fst (predict_endpoint stub_manager example_body))
   \<and> length example_features = 6"
proof -
  have a: "length (body_features short_body) = 5"
    by (simp add: short_body_def five_features_def)
  have b: "Dispatch example_features (Some ''logistic_regression'')
         \<in> set (fst (predict_endpoint stub_manager example_body))"
    by (simp add: predict_endpoint_def make_request_def validate_features_def example_body_def
        stub_run) (simp add: example_features_def)
  have c: "predict_endpoint stub_manager short_body = ([], Inl (RequestValidationError msg_seis))"
    using endpoint_validates_features [of short_body stub_manager, THEN conjunct1] a by simp
  have d: "length example_features = 6"
    using endpoint_validates_features [of example_body stub_manager, THEN conjunct2,
        rule_format, OF b] by simp
  from a b c d show ?thesis by simp
qed

text \<open>
  C10, as stated, fails: with a non-empty dictionary of models \<^verbatim>\<open>predict\<close> does not
  always reach the model. With a scaler fitted on six columns loaded, five features make
  \<^verbatim>\<open>transform\<close> raise; the call ends in the 500 and the model was never invoked.
\<close>

theorem scaler_error_skips_model:
  "models scaled_manager \<noteq> []
   \<and> predict scaled_manager five_features (Some ''random_forest'')
       = ([Transform [five_features]], Inl (HTTPException 500 (''Erro: '' @ width_error)))
   \<and> ModelPredict ''random_forest'' [five_features]
         \<notin> set (fst (predict scaled_manager five_features (Some ''random_forest'')))"
  by (simp add: scaled_run_five) (simp add: scaled_manager_def)

text \<open>
  C10, amended. \<^verbatim>\<open>predict\<close> checks no feature count. For a feature list of any length
  and a non-empty dictionary of models it selects a model and builds the one-row matrix of
  the features. When \<^verbatim>\<open>self.scaler\<close> is truthy (line 81) the scaler is applied to that
  matrix; when no scaler is loaded, or the loaded object is falsy, the matrix is left as
  it is. If the scaler raises, the call ends in the 500 without the model; otherwise the
  model's \<^verbatim>\<open>predict\<close> is invoked on the (scaled) matrix. The only error the call can end
  with is the 500. The witness runs the three cases of line 81.
\<close>

theorem predict_any_length:
  assumes "models m \<noteq> []"
  shows "\<exists>k model. select_model m requested = Inr k \<and> dict_get (models m) k = Inr model
     \<and> (case scale m fs of
          (t, Inr X) \<Rightarrow> (\<exists>t'. fst (predict m fs requested) = t @ ModelPredict k X # t')
        | (t, Inl e) \<Rightarrow> predict m fs requested = (t, Inl (HTTPException 500 (''Erro: '' @ e))))
     \<and> (scaler m = None \<longrightarrow> scale m fs = ([], Inr [fs]))
     \<and> (\<forall>s. scaler m = Some s \<and> obj_truthy s \<longrightarrow>
           scale m fs = ([Transform [fs]], obj_transform s [fs]))
     \<and> (\<forall>s. scaler m = Some s \<and> \<not> obj_truthy s \<longrightarrow> scale m fs = ([], Inr [fs]))
     \<and> (case snd (predict m fs requested) of
          Inr r \<Rightarrow> True
        | Inl err \<Rightarrow> \<exists>e. err = HTTPException 500 (''Erro: '' @ e))"
proof -
  have "\<exists>k. select_model m requested = Inr k"
    using assms
    by (cases "models m"; cases requested)
       (simp_all add: select_model_def first_available_def dict_keys_def)
  then obtain k where sel: "select_model m requested = Inr k" ..
  obtain model where mo: "dict_get (models m) k = Inr model"
    using dict_get_key [OF select_model_key [OF sel]] by blast
  have a: "case scale m fs of
          (t, Inr X) \<Rightarrow> (\<exists>t'. fst (predict m fs requested) = t @ ModelPredict k X # t')
        | (t, Inl e) \<Rightarrow> predict m fs requested = (t, Inl (HTTPException 500 (''Erro: '' @ e)))"
    by (auto simp: predict_def sel predict_body_def mo model_prediction_def
        split: sum.splits prod.splits)
  have b: "scaler m = None \<longrightarrow> scale m fs = ([], Inr [fs])"
    by (simp add: scale_def Let_def)
  have c: "\<forall>s. scaler m = Some s \<and> obj_truthy s \<longrightarrow>
           scale m fs = ([Transform [fs]], obj_transform s [fs])"
    by (simp add: scale_def Let_def)
  have c': "\<forall>s. scaler m = Some s \<and> \<not> obj_truthy s \<longrightarrow> scale m fs = ([], Inr [fs])"
    by (simp add: scale_def Let_def)
  have d: "case snd (predict m fs requested) of
          Inr r \<Rightarrow> True
        | Inl err \<Rightarrow> \<exists>e. err = HTTPException 500 (''Erro: '' @ e)"
    by (auto simp: predict_def sel split: sum.splits prod.splits)
  show ?thesis
    by (intro exI [of _ k] exI [of _ model] conjI sel mo a b c c' d)
qed

theorem predict_any_length_witness:
  "models strict_manager \<noteq> []
   \<and> length five_features = 5
   \<and> scaler strict_manager = None
   \<and> select_model strict_manager None = Inr ''random_forest''
   \<and> scale strict_manager five_features = ([], Inr [five_features])
   \<and> predict strict_manager five_features None
       = ([ModelPredict ''random_forest'' [five_features]],
          Inl (HTTPException 500 (''Erro: '' @ width_error)))
   \<and> models scaled_manager \<noteq> []
   \<and> scaler scaled_manager = Some strict_scaler
   \<and> obj_truthy strict_scaler
   \<and> scale scaled_manager example_features = ([Transform [example_features]], Inr [example_features])
   \<and> fst (predict scaled_manager example_features (Some ''random_forest''))
       = [Transform [example_features], ModelPredict ''random_forest'' [example_features],
          ModelPredictProba ''random_forest'' [example_features]]
   \<and> models falsy_scaler_manager \<noteq> []
   \<and> scaler falsy_scaler_manager = Some falsy_scaler
   \<and> \<not> obj_truthy falsy_scaler
   \<and> scale falsy_scaler_manager five_features = ([], Inr [five_features])
   \<and> predict falsy_scaler_manager five_features (Some ''random_forest'')
       = ([ModelPredict ''random_forest'' [five_features]],
          Inl (HTTPException 500 (''Erro: '' @ width_error)))"
proof -
  have a1: "models strict_manager \<noteq> []"
    and a2: "models scaled_manager \<noteq> []"
    and a3: "models falsy_scaler_manager \<noteq> []"
    by (simp_all add: strict_manager_def scaled_manager_def falsy_scaler_manager_def)
  have b1: "scaler strict_manager = None"
    by (simp add: strict_manager_def)
  have b2: "scaler scaled_manager = Some strict_scaler \<and> obj_truthy strict_scaler"
    by (simp add: scaled_manager_def strict_scaler_def)
  have b3: "scaler falsy_scaler_manager = Some falsy_scaler \<and> \<not> obj_truthy falsy_scaler"
    by (simp add: falsy_scaler_manager_def falsy_scaler_def)
  have c1: "scale strict_manager five_features = ([], Inr [five_features])"
    using predict_any_length [OF a1, of None five_features] b1 by blast
  have c2: "scale scaled_manager example_features
              = ([Transform [example_features]], obj_transform strict_scaler [example_features])"
    using predict_any_length [OF a2, of None example_features] b2 by blast
  have c3: "scale falsy_scaler_manager five_features = ([], Inr [five_features])"
    using predict_any_length [OF a3, of None five_features] b3 by blast
  have d: "obj_transform strict_scaler [example_features] = Inr [example_features]"
    by (simp add: strict_scaler_def six_wide_def example_features_def)
  have e: "predict strict_manager five_features None
       = ([ModelPredict ''random_forest'' [five_features]],
          Inl (HTTPException 500 (''Erro: '' @ width_error)))"
    by (simp add: run_defs strict_manager_def strict_model_def five_features_def six_wide_def)
  have f: "select_model strict_manager None = Inr ''random_forest''"
    by (simp add: select_model_def first_available_def dict_keys_def strict_manager_def)
  have g: "length five_features = 5"
    by (simp add: five_features_def)
  show ?thesis
    using a1 a2 a3 b1 b2 b3 c1 c2 c3 d e f g
    by (simp add: scaled_run_six falsy_run_five)
qed

end
